theory Spec2Isabelle
  imports Complex_Main
begin

section \<open>The financial tracker of finans.py\<close>

text \<open>
  The program keeps one SQLite table, \<^verbatim>\<open>transactions\<close>, and offers two interest
  formulas. The embedding follows finans.py function by function.

  Numbers: a Python \<^verbatim>\<open>float\<close> and an SQLite \<^verbatim>\<open>REAL\<close> are modelled by \<^typ>\<open>real\<close>,
  every operation exact. The rounding of each IEEE operation, infinities, NaN and overflow
  are outside the model; what the model keeps of the arithmetic is its structure (which
  operations run, in which order, on which rows) and every exception that depends on the
  sign or the zeroness of an operand.

  Storage: the database file is a value of type \<open>database\<close>, passed in and returned.
  Opening, committing and closing the connection always succeed in the model; a failing
  disk is not modelled.
\<close>

subsection \<open>Errors and values\<close>

text \<open>
  The exceptions of Python that the modelled code can raise. \<open>InvalidKind\<close> and
  \<open>InvalidArgument\<close> are the names the specification uses for rejected arguments; no
  definition below produces them, they are here so that a statement can say so.
\<close>

datatype error =
    OperationalError
  | ZeroDivisionError
  | TypeError
  | InvalidKind
  | InvalidArgument

text \<open>What a Python call hands back: \<^verbatim>\<open>None\<close>, an \<^verbatim>\<open>int\<close> or a \<^verbatim>\<open>float\<close>.\<close>

datatype py_value = PyNone | PyInt int | PyFloat real

subsection \<open>The database\<close>

text \<open>
  One row of the table created by \<^verbatim>\<open>init_db\<close>:
  \<^verbatim>\<open>id INTEGER PRIMARY KEY AUTOINCREMENT, type TEXT NOT NULL, amount REAL NOT NULL,
  category TEXT, date TEXT NOT NULL\<close>.
\<close>

record transaction =
  tx_id :: int
  tx_type :: string
  tx_amount :: real
  tx_category :: string
  tx_date :: string

text \<open>
  The file \<^verbatim>\<open>finance.db\<close>: the table \<^verbatim>\<open>transactions\<close> (absent until it is created, its
  rows in rowid order) and the counter SQLite keeps in \<^verbatim>\<open>sqlite_sequence\<close> for an
  AUTOINCREMENT key (the largest rowid ever given out).
\<close>

record database =
  transactions :: "transaction list option"
  sqlite_sequence :: int

definition empty_file :: database where
  "empty_file = \<lparr>transactions = None, sqlite_sequence = 0\<rparr>"

text \<open>\<^verbatim>\<open>init_db\<close>: \<^verbatim>\<open>CREATE TABLE IF NOT EXISTS transactions (...)\<close>, then commit and close.\<close>

definition init_db :: "database \<Rightarrow> error + (py_value \<times> database)" where
  "init_db db =
     (case transactions db of
        None \<Rightarrow> Inr (PyNone, db\<lparr>transactions := Some []\<rparr>)
      | Some rows \<Rightarrow> Inr (PyNone, db))"

text \<open>
  The key AUTOINCREMENT gives a new row: one more than the larger of the largest rowid in
  the table and the counter of \<^verbatim>\<open>sqlite_sequence\<close>. Keys are unbounded here; SQLite's
  refusal of an insert once the key \<open>2^63 - 1\<close> has been given out is not modelled.
\<close>

definition next_rowid :: "transaction list \<Rightarrow> int \<Rightarrow> int" where
  "next_rowid rows s = fold max (map tx_id rows) s + 1"

text \<open>
  \<^verbatim>\<open>add_transaction(t_type, amount, category)\<close>: one INSERT of
  \<^verbatim>\<open>(type, amount, category, date)\<close>, the date being the clock's reading \<open>now\<close>
  (\<^verbatim>\<open>datetime.now().strftime("%Y-%m-%d %H:%M:%S")\<close>), an argument of the model. The
  function has no \<^verbatim>\<open>return\<close> statement, so the call yields \<^verbatim>\<open>None\<close>. Without the table
  the INSERT raises \<^verbatim>\<open>sqlite3.OperationalError\<close> (no such table).
\<close>

definition add_transaction ::
  "string \<Rightarrow> real \<Rightarrow> string \<Rightarrow> string \<Rightarrow> database \<Rightarrow> error + (py_value \<times> database)" where
  "add_transaction t_type amount category now db =
     (case transactions db of
        None \<Rightarrow> Inl OperationalError
      | Some rows \<Rightarrow>
          (let i = next_rowid rows (sqlite_sequence db);
               row = \<lparr>tx_id = i, tx_type = t_type, tx_amount = amount,
                      tx_category = category, tx_date = now\<rparr>
           in Inr (PyNone, db\<lparr>transactions := Some (rows @ [row]), sqlite_sequence := i\<rparr>)))"

subsection \<open>The summary\<close>

text \<open>
  \<^verbatim>\<open>SELECT SUM(amount) FROM transactions WHERE type = ?\<close> on the rows of the table:
  SQL's SUM is NULL (\<open>None\<close>) when no row matches, the sum of the amounts otherwise. The
  comparison of \<^verbatim>\<open>type\<close> is the exact, case-sensitive one of SQLite's default collation.
\<close>

definition select_sum_amount :: "string \<Rightarrow> transaction list \<Rightarrow> real option" where
  "select_sum_amount t rows =
     (let amounts = map tx_amount (filter (\<lambda>r. tx_type r = t) rows)
      in if amounts = [] then None else Some (sum_list amounts))"

text \<open>Python's \<^verbatim>\<open>x or 0\<close>: 0 when \<open>x\<close> is \<^verbatim>\<open>None\<close> or zero, \<open>x\<close> otherwise.\<close>

definition or_0 :: "real option \<Rightarrow> real" where
  "or_0 x = (case x of None \<Rightarrow> 0 | Some v \<Rightarrow> if v = 0 then 0 else v)"

text \<open>
  One aggregate query of \<^verbatim>\<open>show_summary\<close>, with its default:
  \<^verbatim>\<open>cursor.execute("SELECT SUM(amount) FROM transactions WHERE type='income'")\<close>,
  \<^verbatim>\<open>total_income = cursor.fetchone()[0] or 0\<close>. The specification calls it
  \<^verbatim>\<open>sum_by_kind\<close>.
\<close>

definition sum_by_kind :: "string \<Rightarrow> database \<Rightarrow> error + real" where
  "sum_by_kind t db =
     (case transactions db of
        None \<Rightarrow> Inl OperationalError
      | Some rows \<Rightarrow> Inr (or_0 (select_sum_amount t rows)))"

text \<open>
  The three numbers \<^verbatim>\<open>show_summary\<close> computes and prints. The rendering of each with
  \<^verbatim>\<open>:.2f\<close> is not modelled.
\<close>

record summary =
  total_income :: real
  total_expense :: real
  balance :: real

definition show_summary :: "database \<Rightarrow> error + (summary \<times> database)" where
  "show_summary db =
     (case sum_by_kind ''income'' db of
        Inl e \<Rightarrow> Inl e
      | Inr ti \<Rightarrow>
          (case sum_by_kind ''expense'' db of
             Inl e \<Rightarrow> Inl e
           | Inr te \<Rightarrow>
               Inr (\<lparr>total_income = ti, total_expense = te, balance = ti - te\<rparr>, db)))"

text \<open>
  The calls the menu of \<^verbatim>\<open>main\<close> makes after \<^verbatim>\<open>init_db\<close>: a sequence of
  \<^verbatim>\<open>add_transaction\<close>, each with its own clock reading, stopping at the first exception.
\<close>

fun add_transactions ::
  "(string \<times> real \<times> string \<times> string) list \<Rightarrow> database \<Rightarrow> error + database" where
  "add_transactions [] db = Inr db"
| "add_transactions ((t, a, c, now) # xs) db =
     (case add_transaction t a c now db of
        Inl e \<Rightarrow> Inl e
      | Inr (v, db') \<Rightarrow> add_transactions xs db')"

text \<open>
  The four values the INSERT supplies for a row: every column but the key.
\<close>

definition columns :: "transaction \<Rightarrow> string \<times> real \<times> string \<times> string" where
  "columns r = (tx_type r, tx_amount r, tx_category r, tx_date r)"

subsection \<open>Interest\<close>

text \<open>
  Python's \<^verbatim>\<open>round(x, ndigits)\<close> on a float: the nearest multiple of \<open>10\<close> to the
  \<open>-ndigits\<close>, a tie going to the even one.
\<close>

definition round_half_even :: "real \<Rightarrow> int" where
  "round_half_even y =
     (let f = \<lfloor>y\<rfloor>; d = y - of_int f
      in if d < 1 / 2 then f
         else if 1 / 2 < d then f + 1
         else if even f then f else f + 1)"

definition py_round :: "real \<Rightarrow> nat \<Rightarrow> real" where
  "py_round x ndigits = of_int (round_half_even (x * 10 ^ ndigits)) / 10 ^ ndigits"


text \<open>Python's true division of floats raises on a zero divisor.\<close>

definition py_truediv :: "real \<Rightarrow> real \<Rightarrow> error + real" where
  "py_truediv a b = (if b = 0 then Inl ZeroDivisionError else Inr (a / b))"

text \<open>
  Python's \<^verbatim>\<open>**\<close> on floats, in the order in which the interpreter decides: anything to
  the power 0 is 1; zero to a negative power raises; a negative base with a fractional
  exponent gives a complex number (whose value the model does not keep); a negative base
  with a whole exponent gives the power of the absolute value, negated for an odd exponent.
\<close>

datatype py_number = FloatNum real | ComplexNum

definition py_pow :: "real \<Rightarrow> real \<Rightarrow> error + py_number" where
  "py_pow iv iw =
     (if iw = 0 then Inr (FloatNum 1)
      else if iv = 0 then (if iw < 0 then Inl ZeroDivisionError else Inr (FloatNum 0))
      else if iv < 0 then
        (if iw \<noteq> of_int \<lfloor>iw\<rfloor> then Inr ComplexNum
         else Inr (FloatNum ((if odd \<lfloor>iw\<rfloor> then - 1 else 1) * ((- iv) powr iw))))
      else Inr (FloatNum (iv powr iw)))"

text \<open>A float times a number: a complex factor makes the product complex.\<close>

definition py_mul :: "real \<Rightarrow> py_number \<Rightarrow> py_number" where
  "py_mul a b = (case b of FloatNum x \<Rightarrow> FloatNum (a * x) | ComplexNum \<Rightarrow> ComplexNum)"

text \<open>\<^verbatim>\<open>round(x, 2)\<close> on a number: \<^verbatim>\<open>complex\<close> has no \<^verbatim>\<open>__round__\<close>, a TypeError.\<close>

definition py_round_number :: "py_number \<Rightarrow> nat \<Rightarrow> error + real" where
  "py_round_number x ndigits =
     (case x of FloatNum v \<Rightarrow> Inr (py_round v ndigits) | ComplexNum \<Rightarrow> Inl TypeError)"

text \<open>
  \<^verbatim>\<open>compound_interest(principal, rate, time, n=1)\<close>:
  \<^verbatim>\<open>amount = principal * ((1 + (rate/100)/n) ** (n * time)); return round(amount, 2)\<close>,
  with \<open>n\<close> the \<^verbatim>\<open>int\<close> that \<^verbatim>\<open>main\<close> reads (a caller that leaves it out gets 1,
  which the model's caller writes). The operands are evaluated left to right: the division
  by \<open>n\<close> comes before the power.
\<close>

definition compound_interest :: "real \<Rightarrow> real \<Rightarrow> real \<Rightarrow> int \<Rightarrow> error + real" where
  "compound_interest princ rate time n =
     (case py_truediv (rate / 100) (of_int n) of
        Inl e \<Rightarrow> Inl e
      | Inr q \<Rightarrow>
          (case py_pow (1 + q) (of_int n * time) of
             Inl e \<Rightarrow> Inl e
           | Inr p \<Rightarrow> py_round_number (py_mul princ p) 2))"

section \<open>Properties\<close>

subsection \<open>Helper facts about the queries\<close>

lemma or_0_id: "or_0 (Some v) = v"
  by (simp add: or_0_def)

lemma or_0_select_sum:
  "or_0 (select_sum_amount t rows) = sum_list (map tx_amount (filter (\<lambda>r. tx_type r = t) rows))"
  by (simp add: select_sum_amount_def or_0_def Let_def)

lemma sum_by_kind_table:
  "transactions db = Some rows \<Longrightarrow>
   sum_by_kind t db = Inr (sum_list (map tx_amount (filter (\<lambda>r. tx_type r = t) rows)))"
  by (simp add: sum_by_kind_def or_0_select_sum)

lemma add_transaction_table:
  "transactions db = Some rows \<Longrightarrow>
   add_transaction t a c now db =
     Inr (PyNone, db\<lparr>transactions :=
            Some (rows @ [\<lparr>tx_id = next_rowid rows (sqlite_sequence db), tx_type = t,
                             tx_amount = a, tx_category = c, tx_date = now\<rparr>]),
          sqlite_sequence := next_rowid rows (sqlite_sequence db)\<rparr>)"
  by (simp add: add_transaction_def Let_def)


lemma show_summary_table:
  "transactions db = Some rows \<Longrightarrow>
   show_summary db =
     Inr (\<lparr>total_income = sum_list (map tx_amount (filter (\<lambda>r. tx_type r = ''income'') rows)),
           total_expense = sum_list (map tx_amount (filter (\<lambda>r. tx_type r = ''expense'') rows)),
           balance = sum_list (map tx_amount (filter (\<lambda>r. tx_type r = ''income'') rows))
                   - sum_list (map tx_amount (filter (\<lambda>r. tx_type r = ''expense'') rows))\<rparr>, db)"
  by (simp add: show_summary_def sum_by_kind_table)

subsection \<open>Helper facts about the keys\<close>

lemma fold_max_ge: "(s::int) \<le> fold max xs s"
  by (induction xs arbitrary: s) (auto intro: order_trans [OF max.cobounded2])

lemma fold_max_mem: "(x::int) \<in> set xs \<Longrightarrow> x \<le> fold max xs s"
proof (induction xs arbitrary: s)
  case Nil
  then show ?case by simp
next
  case (Cons y ys)
  show ?case
  proof (cases "x = y")
    case True
    have "y \<le> max y s" by simp
    also have "\<dots> \<le> fold max ys (max y s)" by (rule fold_max_ge)
    finally show ?thesis using True by simp
  next
    case False
    with Cons.prems have "x \<in> set ys" by simp
    then show ?thesis using Cons.IH by simp
  qed
qed

lemma next_rowid_above_rows: "r \<in> set rows \<Longrightarrow> tx_id r < next_rowid rows s"
  using fold_max_mem [of "tx_id r" "map tx_id rows" s] by (simp add: next_rowid_def)


subsection \<open>Helper facts about a sequence of inserts\<close>

text \<open>
  On a database that has the table, every sequence of inserts runs to its end, and the
  table afterwards is the old one followed by one row for each insert, in order.
\<close>

lemma add_transactions_table:
  "transactions db = Some rows \<Longrightarrow>
   \<exists>db' rows'. add_transactions xs db = Inr db' \<and> transactions db' = Some (rows @ rows')
      \<and> map columns rows' = xs"
proof (induction xs arbitrary: db rows)
  case Nil
  then show ?case by simp
next
  case (Cons x xs)
  obtain t a c now where x: "x = (t, a, c, now)" by (cases x)
  let ?row = "\<lparr>tx_id = next_rowid rows (sqlite_sequence db), tx_type = t,
                 tx_amount = a, tx_category = c, tx_date = now\<rparr>"
  let ?db1 = "db\<lparr>transactions := Some (rows @ [?row]),
                  sqlite_sequence := next_rowid rows (sqlite_sequence db)\<rparr>"
  have step: "add_transaction t a c now db = Inr (PyNone, ?db1)"
    using Cons.prems by (rule add_transaction_table)
  have "transactions ?db1 = Some (rows @ [?row])" by simp
  from Cons.IH [OF this] obtain db' rows' where
    run: "add_transactions xs ?db1 = Inr db'" and
    tab: "transactions db' = Some ((rows @ [?row]) @ rows')" and
    cols: "map columns rows' = xs" by blast
  show ?case
  proof (intro exI conjI)
    show "add_transactions (x # xs) db = Inr db'"
      using step run by (simp add: x)
    show "transactions db' = Some (rows @ (?row # rows'))"
      using tab by simp
    show "map columns (?row # rows') = x # xs"
      using cols by (simp add: x columns_def)
  qed
qed

subsection \<open>Helper facts about rounding\<close>






subsection \<open>Helper facts about the keys of a sequence of inserts\<close>

text \<open>
  Ids that increase strictly in insertion order keep doing so over any sequence of inserts;
  the empty table that \<^verbatim>\<open>init_db\<close> creates is such a table.
\<close>

lemma add_transactions_keep_ids_increasing:
  "transactions db = Some rows \<Longrightarrow> sorted_wrt (<) (map tx_id rows) \<Longrightarrow>
   \<exists>db' rows'. add_transactions xs db = Inr db' \<and> transactions db' = Some rows'
     \<and> sorted_wrt (<) (map tx_id rows')"
proof (induction xs arbitrary: db rows)
  case Nil
  then show ?case by simp
next
  case (Cons x xs)
  obtain t a c now where x: "x = (t, a, c, now)" by (cases x)
  let ?row = "\<lparr>tx_id = next_rowid rows (sqlite_sequence db), tx_type = t,
                 tx_amount = a, tx_category = c, tx_date = now\<rparr>"
  let ?db1 = "db\<lparr>transactions := Some (rows @ [?row]),
                  sqlite_sequence := next_rowid rows (sqlite_sequence db)\<rparr>"
  have step: "add_transaction t a c now db = Inr (PyNone, ?db1)"
    using Cons.prems(1) by (rule add_transaction_table)
  have tab1: "transactions ?db1 = Some (rows @ [?row])" by simp
  have srt1: "sorted_wrt (<) (map tx_id (rows @ [?row]))"
    using Cons.prems(2) by (simp add: sorted_wrt_append next_rowid_above_rows)
  from Cons.IH [OF tab1 srt1] obtain db' rows' where
    "add_transactions xs ?db1 = Inr db'" "transactions db' = Some rows'"
    "sorted_wrt (<) (map tx_id rows')" by blast
  then show ?case using step by (simp add: x)
qed

subsection \<open>Helper facts about the power\<close>

text \<open>
  With a nonzero number of compoundings, \<^verbatim>\<open>compound_interest\<close> raises in two cases only:
  a negative base with an exponent that is not whole (the complex power, rejected by
  \<^verbatim>\<open>round\<close>), and a zero base with a negative exponent.
\<close>

lemma compound_interest_raises_iff:
  assumes "n \<noteq> 0"
  shows "(\<exists>e. compound_interest p r t n = Inl e) \<longleftrightarrow>
         (1 + (r / 100) / of_int n < 0 \<and> of_int n * t \<noteq> of_int \<lfloor>of_int n * t\<rfloor>)
         \<or> (1 + (r / 100) / of_int n = 0 \<and> of_int n * t < 0)"
  using assms
  by (auto simp: compound_interest_def py_truediv_def py_pow_def py_mul_def py_round_number_def)

section \<open>The claims\<close>

text \<open>
  The statements below are about a database that has the table, which is what
  \<^verbatim>\<open>init_db\<close> leaves and what \<^verbatim>\<open>main\<close> works on: \<open>transactions db = Some rows\<close>.
\<close>

subsection \<open>C1: an insert adds its amount to the sum of its kind only\<close>



subsection \<open>C2: the balance is income minus expense\<close>

text \<open>
  Claim C2. After every sequence of inserts, \<^verbatim>\<open>show_summary\<close> succeeds; its total income
  and total expense are the sums of the amounts of the rows of type \<open>''income''\<close> and
  \<open>''expense''\<close> (the rows being the earlier ones followed by the inserted ones), and its
  balance is the total income minus the total expense.
\<close>

theorem balance_is_income_minus_expense:
  assumes "transactions db0 = Some rows0"
  shows "\<exists>db rows s. add_transactions xs db0 = Inr db \<and> transactions db = Some rows
           \<and> map columns rows = map columns rows0 @ xs
           \<and> show_summary db = Inr (s, db)
           \<and> total_income s = sum_list (map tx_amount (filter (\<lambda>r. tx_type r = ''income'') rows))
           \<and> total_expense s = sum_list (map tx_amount (filter (\<lambda>r. tx_type r = ''expense'') rows))
           \<and> balance s = total_income s - total_expense s"
proof -
  from add_transactions_table [OF assms, of xs] obtain db rows' where
    run: "add_transactions xs db0 = Inr db" and
    tab: "transactions db = Some (rows0 @ rows')" and
    cols: "map columns rows' = xs" by blast
  let ?rows = "rows0 @ rows'"
  let ?s = "\<lparr>total_income = sum_list (map tx_amount (filter (\<lambda>r. tx_type r = ''income'') ?rows)),
             total_expense = sum_list (map tx_amount (filter (\<lambda>r. tx_type r = ''expense'') ?rows)),
             balance = sum_list (map tx_amount (filter (\<lambda>r. tx_type r = ''income'') ?rows))
                     - sum_list (map tx_amount (filter (\<lambda>r. tx_type r = ''expense'') ?rows))\<rparr>"
  have "show_summary db = Inr (?s, db)"
    using tab by (rule show_summary_table)
  moreover have "map columns ?rows = map columns rows0 @ xs"
    using cols by simp
  ultimately show ?thesis
    using run tab by (intro exI [of _ db] exI [of _ ?rows] exI [of _ ?s]) simp
qed

theorem balance_is_income_minus_expense_witness:
  "transactions \<lparr>transactions = Some [], sqlite_sequence = 0\<rparr> = Some []
   \<and> (\<exists>db s. add_transactions
          [(''income'', 100, ''salary'', ''2024-01-01 09:00:00''),
           (''expense'', 30, ''rent'', ''2024-01-02 09:00:00'')]
          \<lparr>transactions = Some [], sqlite_sequence = 0\<rparr> = Inr db
        \<and> show_summary db = Inr (s, db)
        \<and> total_income s = 100 \<and> total_expense s = 30 \<and> balance s = 70)"
proof -
  let ?d0 = "\<lparr>transactions = Some [], sqlite_sequence = 0\<rparr>"
  let ?xs = "[(''income'', 100 :: real, ''salary'', ''2024-01-01 09:00:00''),
              (''expense'', 30, ''rent'', ''2024-01-02 09:00:00'')]"
  have h: "transactions ?d0 = Some []" by simp
  from balance_is_income_minus_expense [OF h, of ?xs] obtain db rows s where
    run: "add_transactions ?xs ?d0 = Inr db" and
    tab: "transactions db = Some rows" and
    sm: "show_summary db = Inr (s, db)" and
    ti: "total_income s = sum_list (map tx_amount (filter (\<lambda>r. tx_type r = ''income'') rows))" and
    te: "total_expense s = sum_list (map tx_amount (filter (\<lambda>r. tx_type r = ''expense'') rows))" and
    bal: "balance s = total_income s - total_expense s"
    by blast
  have "add_transactions ?xs ?d0 =
      Inr \<lparr>transactions = Some
             [\<lparr>tx_id = 1, tx_type = ''income'', tx_amount = 100, tx_category = ''salary'',
                tx_date = ''2024-01-01 09:00:00''\<rparr>,
              \<lparr>tx_id = 2, tx_type = ''expense'', tx_amount = 30, tx_category = ''rent'',
                tx_date = ''2024-01-02 09:00:00''\<rparr>],
           sqlite_sequence = 2\<rparr>"
    by (simp add: add_transaction_def next_rowid_def)
  with run tab have rows: "rows =
             [\<lparr>tx_id = 1, tx_type = ''income'', tx_amount = 100, tx_category = ''salary'',
                tx_date = ''2024-01-01 09:00:00''\<rparr>,
              \<lparr>tx_id = 2, tx_type = ''expense'', tx_amount = 30, tx_category = ''rent'',
                tx_date = ''2024-01-02 09:00:00''\<rparr>]"
    by auto
  have "total_income s = 100" "total_expense s = 30"
    using ti te by (simp_all add: rows)
  then show ?thesis using h run sm bal by auto
qed

subsection \<open>C3: what an insert returns, and the key it assigns\<close>




subsection \<open>C4: a type that is neither income nor expense\<close>





subsection \<open>C5: compounding zero times a year\<close>

text \<open>
  Claim C5, as stated: \<^verbatim>\<open>compound_interest(p, r, t, 0)\<close> fails with \<open>InvalidArgument\<close>,
  rejected before the formula is evaluated. The function holds no check: the failure is the
  \<^verbatim>\<open>ZeroDivisionError\<close> of the formula's own division.
\<close>

theorem compounds_zero_invalid_argument_counterexample:
  "compound_interest 1000 5 1 0 = Inl ZeroDivisionError
   \<and> compound_interest 1000 5 1 0 \<noteq> Inl InvalidArgument"
  by (simp add: compound_interest_def py_truediv_def)

text \<open>
  Claim C5, amended. For every principal, rate and time, \<^verbatim>\<open>compound_interest(p, r, t, 0)\<close>
  fails with \<^verbatim>\<open>ZeroDivisionError\<close>, raised by the division by the number of compoundings
  inside the formula; no value is returned.
\<close>

theorem compounds_zero_raises_in_division:
  "compound_interest p r t 0 = Inl ZeroDivisionError
   \<and> py_truediv (r / 100) (of_int 0) = Inl ZeroDivisionError"
  by (simp add: compound_interest_def py_truediv_def)

subsection \<open>C6: the sum over no rows is zero\<close>

text \<open>
  Claim C6. When the table holds no row of a type, the aggregate query of that type yields
  0, not an error and not NULL; on the empty table, and so on the table \<^verbatim>\<open>init_db\<close>
  creates in a new file, \<^verbatim>\<open>show_summary\<close> computes total income 0, total expense 0 and
  balance 0.
\<close>

theorem sum_by_kind_zero_default:
  assumes "transactions db = Some rows" and "\<forall>r \<in> set rows. tx_type r \<noteq> t"
  shows "sum_by_kind t db = Inr 0
         \<and> show_summary (db\<lparr>transactions := Some []\<rparr>) =
             Inr (\<lparr>total_income = 0, total_expense = 0, balance = 0\<rparr>,
                  db\<lparr>transactions := Some []\<rparr>)
         \<and> (\<exists>d0. init_db empty_file = Inr (PyNone, d0)
               \<and> show_summary d0 =
                   Inr (\<lparr>total_income = 0, total_expense = 0, balance = 0\<rparr>, d0))"
proof -
  have "filter (\<lambda>r. tx_type r = t) rows = []"
    using assms(2) by (simp add: filter_empty_conv)
  then have "sum_by_kind t db = Inr 0"
    using assms(1) by (simp add: sum_by_kind_table)
  moreover have "show_summary (db\<lparr>transactions := Some []\<rparr>) =
      Inr (\<lparr>total_income = 0, total_expense = 0, balance = 0\<rparr>, db\<lparr>transactions := Some []\<rparr>)"
    by (simp add: show_summary_table)
  moreover have "\<exists>d0. init_db empty_file = Inr (PyNone, d0)
      \<and> show_summary d0 = Inr (\<lparr>total_income = 0, total_expense = 0, balance = 0\<rparr>, d0)"
    by (simp add: init_db_def empty_file_def show_summary_table)
  ultimately show ?thesis by simp
qed

theorem sum_by_kind_zero_default_witness:
  "transactions \<lparr>transactions = Some [\<lparr>tx_id = 1, tx_type = ''expense'', tx_amount = 30,
        tx_category = ''rent'', tx_date = ''2024-01-02 09:00:00''\<rparr>], sqlite_sequence = 1\<rparr>
     = Some [\<lparr>tx_id = 1, tx_type = ''expense'', tx_amount = 30,
        tx_category = ''rent'', tx_date = ''2024-01-02 09:00:00''\<rparr>]
   \<and> tx_type \<lparr>tx_id = 1, tx_type = ''expense'', tx_amount = 30,
        tx_category = ''rent'', tx_date = ''2024-01-02 09:00:00''\<rparr> \<noteq> ''income''
   \<and> sum_by_kind ''income'' \<lparr>transactions = Some [\<lparr>tx_id = 1, tx_type = ''expense'',
        tx_amount = 30, tx_category = ''rent'', tx_date = ''2024-01-02 09:00:00''\<rparr>],
        sqlite_sequence = 1\<rparr> = Inr 0
   \<and> show_summary \<lparr>transactions = Some [], sqlite_sequence = 1\<rparr> =
        Inr (\<lparr>total_income = 0, total_expense = 0, balance = 0\<rparr>,
             \<lparr>transactions = Some [], sqlite_sequence = 1\<rparr>)"
proof -
  let ?row = "\<lparr>tx_id = 1, tx_type = ''expense'', tx_amount = 30,
        tx_category = ''rent'', tx_date = ''2024-01-02 09:00:00''\<rparr>"
  let ?db = "\<lparr>transactions = Some [?row], sqlite_sequence = 1\<rparr>"
  have h1: "transactions ?db = Some [?row]" by simp
  have h2: "\<forall>r \<in> set [?row]. tx_type r \<noteq> ''income''" by simp
  from sum_by_kind_zero_default [OF h1 h2] show ?thesis using h1 h2 by simp
qed


subsection \<open>C7: simple interest\<close>


subsection \<open>C8: compound interest\<close>




subsection \<open>C9: creating the table twice\<close>

text \<open>
  Claim C9. \<^verbatim>\<open>init_db\<close> never fails; called again after a first call and any sequence of
  inserts, it returns the database it was given, unchanged: the table then holds the rows
  there were before the first call followed by the inserted ones, so every aggregate is what
  it was before the second call.
\<close>

theorem init_db_idempotent:
  "\<exists>d1 d2 rows. init_db db = Inr (PyNone, d1) \<and> add_transactions xs d1 = Inr d2
      \<and> init_db d2 = Inr (PyNone, d2)
      \<and> transactions d2 = Some rows
      \<and> map columns rows =
          map columns (case transactions db of None \<Rightarrow> [] | Some rs \<Rightarrow> rs) @ xs"
proof -
  obtain d1 rows1 where i1: "init_db db = Inr (PyNone, d1)" and t1: "transactions d1 = Some rows1"
    and r1: "rows1 = (case transactions db of None \<Rightarrow> [] | Some rs \<Rightarrow> rs)"
    by (cases "transactions db") (auto simp: init_db_def)
  from add_transactions_table [OF t1, of xs] obtain d2 rows' where
    run: "add_transactions xs d1 = Inr d2" and
    t2: "transactions d2 = Some (rows1 @ rows')" and cols: "map columns rows' = xs" by blast
  have "init_db d2 = Inr (PyNone, d2)"
    using t2 by (simp add: init_db_def)
  then show ?thesis using i1 run t2 cols r1 by auto
qed

subsection \<open>C10: a row of another type is stored and not counted\<close>

text \<open>
  Claim C10. An insert with a type other than \<open>''income''\<close> and \<open>''expense''\<close> succeeds
  and its row is in the table afterwards, yet \<^verbatim>\<open>show_summary\<close> computes the same total
  income, total expense and balance before and after it.
\<close>

theorem unknown_kind_stored_summary_unchanged:
  assumes "transactions db = Some rows" and "t \<noteq> ''income''" and "t \<noteq> ''expense''"
  shows "\<exists>db' row s. add_transaction t a c now db = Inr (PyNone, db')
           \<and> transactions db' = Some (rows @ [row]) \<and> columns row = (t, a, c, now)
           \<and> show_summary db = Inr (s, db) \<and> show_summary db' = Inr (s, db')"
proof -
  let ?row = "\<lparr>tx_id = next_rowid rows (sqlite_sequence db), tx_type = t,
                 tx_amount = a, tx_category = c, tx_date = now\<rparr>"
  let ?db' = "db\<lparr>transactions := Some (rows @ [?row]),
                  sqlite_sequence := next_rowid rows (sqlite_sequence db)\<rparr>"
  let ?s = "\<lparr>total_income = sum_list (map tx_amount (filter (\<lambda>r. tx_type r = ''income'') rows)),
             total_expense = sum_list (map tx_amount (filter (\<lambda>r. tx_type r = ''expense'') rows)),
             balance = sum_list (map tx_amount (filter (\<lambda>r. tx_type r = ''income'') rows))
                     - sum_list (map tx_amount (filter (\<lambda>r. tx_type r = ''expense'') rows))\<rparr>"
  have tab': "transactions ?db' = Some (rows @ [?row])" by simp
  show ?thesis
  proof (intro exI [of _ ?db'] exI [of _ ?row] exI [of _ ?s] conjI)
    show "add_transaction t a c now db = Inr (PyNone, ?db')"
      using assms(1) by (rule add_transaction_table)
    show "transactions ?db' = Some (rows @ [?row])" by simp
    show "columns ?row = (t, a, c, now)" by (simp add: columns_def)
    show "show_summary db = Inr (?s, db)"
      using assms(1) by (rule show_summary_table)
    show "show_summary ?db' = Inr (?s, ?db')"
      using assms(2,3) by (simp only: show_summary_table [OF tab']) simp
  qed
qed

theorem unknown_kind_stored_summary_unchanged_witness:
  "transactions \<lparr>transactions = Some [\<lparr>tx_id = 1, tx_type = ''income'', tx_amount = 100,
        tx_category = ''salary'', tx_date = ''2024-01-01 09:00:00''\<rparr>], sqlite_sequence = 1\<rparr>
     = Some [\<lparr>tx_id = 1, tx_type = ''income'', tx_amount = 100,
        tx_category = ''salary'', tx_date = ''2024-01-01 09:00:00''\<rparr>]
   \<and> ''Income'' \<noteq> ''income'' \<and> ''Income'' \<noteq> ''expense''
   \<and> (\<exists>db' row. add_transaction ''Income'' 40 ''gift'' ''2024-01-04 09:00:00''
          \<lparr>transactions = Some [\<lparr>tx_id = 1, tx_type = ''income'', tx_amount = 100,
             tx_category = ''salary'', tx_date = ''2024-01-01 09:00:00''\<rparr>], sqlite_sequence = 1\<rparr>
          = Inr (PyNone, db')
        \<and> transactions db' = Some [\<lparr>tx_id = 1, tx_type = ''income'', tx_amount = 100,
             tx_category = ''salary'', tx_date = ''2024-01-01 09:00:00''\<rparr>, row]
        \<and> columns row = (''Income'', 40, ''gift'', ''2024-01-04 09:00:00'')
        \<and> show_summary db' =
            Inr (\<lparr>total_income = 100, total_expense = 0, balance = 100\<rparr>, db'))"
proof -
  let ?row = "\<lparr>tx_id = 1, tx_type = ''income'', tx_amount = 100,
        tx_category = ''salary'', tx_date = ''2024-01-01 09:00:00''\<rparr>"
  let ?db = "\<lparr>transactions = Some [?row], sqlite_sequence = 1\<rparr>"
  have h1: "transactions ?db = Some [?row]" by simp
  have h2: "''Income'' \<noteq> ''income''" by simp
  have h3: "''Income'' \<noteq> ''expense''" by simp
  from unknown_kind_stored_summary_unchanged
         [OF h1 h2 h3, of 40 "''gift''" "''2024-01-04 09:00:00''"]
  obtain db' row s where
    "add_transaction ''Income'' 40 ''gift'' ''2024-01-04 09:00:00'' ?db = Inr (PyNone, db')"
    "transactions db' = Some ([?row] @ [row])"
    "columns row = (''Income'', 40, ''gift'', ''2024-01-04 09:00:00'')"
    "show_summary ?db = Inr (s, ?db)" "show_summary db' = Inr (s, db')"
    by blast
  moreover have "show_summary ?db =
      Inr (\<lparr>total_income = 100, total_expense = 0, balance = 100\<rparr>, ?db)"
    by (simp add: show_summary_def sum_by_kind_def or_0_def select_sum_amount_def)
  ultimately show ?thesis using h1 h2 h3 by auto
qed

end
